theory Spec2Isabelle
  imports Main
begin

section \<open>JavaScript values\<close>

text \<open>
  A JavaScript number is an integer or \<open>NaN\<close> (the result of \<open>parseInt\<close> on text that
  is not a number). The integers are unbounded here; the doubles of JavaScript are
  exact up to \<open>2^53\<close> only, and no statement below depends on a value beyond that.
  The values that reach the cart code as identifiers and message properties are
  \<open>undefined\<close>, \<open>null\<close>, numbers and strings.
\<close>

datatype jsnum = Finite int | NaN

datatype jsval = Undefined | Null | Number jsnum | Str string

text \<open>Truthiness, as tested by \<open>!x\<close> and \<open>x || y\<close>.\<close>

fun truthy :: "jsval \<Rightarrow> bool" where
  "truthy Undefined = False"
| "truthy Null = False"
| "truthy (Number (Finite n)) = (n \<noteq> 0)"
| "truthy (Number NaN) = False"
| "truthy (Str s) = (s \<noteq> [])"

text \<open>\<open>a < b\<close> on numbers: every comparison with \<open>NaN\<close> is false.\<close>

fun js_less :: "jsnum \<Rightarrow> int \<Rightarrow> bool" where
  "js_less (Finite n) b = (n < b)"
| "js_less NaN b = False"

text \<open>\<open>n || d\<close> for a number \<open>n\<close>: zero and \<open>NaN\<close> are falsy.\<close>

fun or_default :: "jsnum \<Rightarrow> int \<Rightarrow> int" where
  "or_default (Finite n) d = (if n = 0 then d else n)"
| "or_default NaN d = d"

section \<open>Cart documents, errors and results\<close>

record item =
  quantity :: int
  line_price :: int

record cart =
  item_count :: int
  total_price :: int
  items :: "item list"

text \<open>
  The \<open>Error\<close> objects the cart code can hold in a \<open>catch\<close> block; each stands for its
  \<open>message\<close>. \<open>Error s\<close> is \<open>new Error(s)\<close> with a literal text, \<open>HttpError n\<close> is
  \<open>new Error(`HTTP error! status: ${n}`)\<close>, \<open>MessageOf v\<close> is
  \<open>new Error(errorData.message)\<close>, \<open>FetchFailed m\<close> is the rejection of \<open>fetch\<close> with
  message \<open>m\<close>, \<open>SyntaxError\<close> is the rejection of \<open>response.json()\<close> on a body that is
  not JSON, and \<open>TypeError\<close> is a property read on \<open>null\<close>.
\<close>

datatype error =
    Error string
  | HttpError int
  | MessageOf jsval
  | FetchFailed string
  | SyntaxError
  | TypeError

text \<open>The result objects \<open>{success: true, data}\<close> and \<open>{success: false, error}\<close>.\<close>

datatype result = Success cart | Failure error

text \<open>How an asynchronous function settles: its promise resolves or rejects.\<close>

datatype 'a completion = Returned 'a | Threw error

text \<open>
  A call of an asynchronous function runs until its first \<open>await fetch(...)\<close>: it has
  either settled already or is suspended on the request it issued.
\<close>

datatype 'a progress = Settled "'a completion" | Pending

section \<open>The network\<close>

text \<open>
  \<open>response.json()\<close> either rejects or yields the parsed document. The body of a
  response with \<open>response.ok\<close> is a cart document (the wire contract of the cart
  endpoints; the line item that \<open>/cart/add.js\<close> answers with is passed on unread and
  has the same type here). Of the body of a response that is not ok only the
  \<open>message\<close> property is read: the body is \<open>null\<close>, or a value with that property
  (\<open>Undefined\<close> when it has none).
\<close>

datatype 'a parsed = Unparseable | Parsed 'a

datatype errdoc = ErrNull | ErrDoc jsval

datatype response =
    NetworkFailure string
  | HttpOk "cart parsed"
  | HttpNotOk int "errdoc parsed"

text \<open>
  The four URLs: \<open>/cart/add.js\<close>, \<open>/cart/change.js\<close>, \<open>/cart/update.js\<close> and
  \<open>/cart.js\<close>.
\<close>

datatype endpoint = Cart_add_js | Cart_change_js | Cart_update_js | Cart_js

datatype http_method = GET | POST

datatype payload =
    NoBody
  | AddBody jsval jsnum "jsval option" "(string \<times> string) list option"
  | ChangeBody int jsnum
  | NoteBody string

text \<open>The fields of an input element that the handlers read.\<close>

record input =
  line :: int
  input_value :: jsnum

text \<open>
  The code that waits for a response: one constructor for each \<open>await fetch(...)\<close> of
  the cart code, with the local variables the rest of the function uses.
\<close>

datatype kont =
    UpdateLineItem input
  | RemoveLineItem int
  | DrawerInit
  | DrawerUpdateCartItem
  | DrawerUpdateCart
  | DrawerUpsellAdd
  | DrawerNote
  | AddToCart jsnum
  | UpdateCartItem
  | RemoveFromCart
  | UpdateCartNote string
  | UpdateCartCount
  | GetCartData

record request =
  url :: endpoint
  meth :: http_method
  body :: payload
  kont :: kont

section \<open>Effects and state\<close>

datatype detail =
    ItemAdded cart jsnum
  | ErrorDetail error
  | NoteUpdated string
  | CartUpdated "cart option"

text \<open>
  What the code does to its surroundings: \<open>document.dispatchEvent\<close>, the toast of
  \<open>CartSystem.showNotification\<close>, \<open>console.error\<close>, and the writes to the page.
\<close>

datatype effect =
    Dispatch string detail
  | ShowNotification string string
  | ConsoleError string error
  | UpdateCartUI cart
  | UpdateFreeShippingBar cart
  | SetInputValue int int
  | ShowError string
  | Render cart
  | SetCartCount int

datatype timer_action = UpdateCartItemLater int int | SaveNoteLater string

record timer =
  deadline :: int
  action :: timer_action

text \<open>
  The fields of the three components (\<open>cart\<close>, \<open>isUpdating\<close> of \<open>CartSystem\<close>;
  \<open>isLoading\<close>, \<open>cartData\<close>, \<open>debounceTimer\<close> of \<open>CartDrawer\<close>; \<open>cartCache\<close> of
  \<open>cartUtils\<close>), the clock read by \<open>Date.now()\<close>, the requests awaiting a response,
  every request to the four cart URLs issued so far, and every effect so far.
\<close>

record world =
  cart :: "cart option"
  isUpdating :: bool
  isLoading :: bool
  cartData :: "cart option"
  debounceTimer :: "timer option"
  cartCache :: "(cart \<times> int) option"
  clock :: int
  inflight :: "request list"
  issued :: "request list"
  effects :: "effect list"

definition fetch :: "endpoint \<Rightarrow> http_method \<Rightarrow> payload \<Rightarrow> kont \<Rightarrow> world \<Rightarrow> world" where
  "fetch u m b k w =
     (let r = \<lparr>url = u, meth = m, body = b, kont = k\<rparr>
      in w\<lparr>inflight := inflight w @ [r], issued := issued w @ [r]\<rparr>)"

definition emit :: "effect \<Rightarrow> world \<Rightarrow> world" where
  "emit e w = w\<lparr>effects := effects w @ [e]\<rparr>"

section \<open>The event \<open>cart:updated\<close>\<close>

text \<open>
  \<open>document.dispatchEvent\<close> runs the listeners of the event before it returns. Two
  listeners of \<open>cart:updated\<close> touch the state: the one of \<open>CartSystem\<close>
  (\<open>handleCartUpdate\<close> with the event's cart) and the one of \<open>cartUtils\<close> (a call of
  \<open>updateCartCount\<close>). The header and the live region listen too and only write to
  the page: they are part of the \<open>Dispatch\<close> effect.

  \<open>updateCartCount\<close> calls \<open>getCart\<close>, which issues the read of \<open>/cart.js\<close>; its
  \<open>then\<close> callback runs when the response is there. \<open>handleCartUpdate\<close> stores the
  cart and updates the page; the event's cart is \<open>null\<close> when the drawer dispatches
  the event before it has loaded a cart.
\<close>

definition updateCartCount :: "world \<Rightarrow> world" where
  "updateCartCount w = fetch Cart_js GET NoBody UpdateCartCount w"

definition handleCartUpdate :: "cart option \<Rightarrow> world \<Rightarrow> world" where
  "handleCartUpdate c w =
     (case c of
        None \<Rightarrow> w\<lparr>cart := None\<rparr>
      | Some d \<Rightarrow> emit (UpdateFreeShippingBar d) (emit (UpdateCartUI d) (w\<lparr>cart := Some d\<rparr>)))"

text \<open>
  The dispatch of \<open>cart:updated\<close> with the cart \<open>c\<close> in its detail. The two listeners
  write to different fields, so the order in which they were registered does not
  matter (\<open>cart_updated_listeners_commute\<close> below).
\<close>

definition dispatch_cart_updated :: "cart option \<Rightarrow> world \<Rightarrow> world" where
  "dispatch_cart_updated c w =
     updateCartCount (handleCartUpdate c (emit (Dispatch ''cart:updated'' (CartUpdated c)) w))"

section \<open>cartUtils\<close>

record options =
  selling_plan :: jsval
  properties :: "(string \<times> string) list option"

definition dispatchCartEvent :: "string \<Rightarrow> detail \<Rightarrow> world \<Rightarrow> world" where
  "dispatchCartEvent eventName d w = emit (Dispatch eventName d) w"

definition clearCartCache :: "world \<Rightarrow> world" where
  "clearCartCache w = w\<lparr>cartCache := None\<rparr>"

text \<open>\<open>getCart\<close> from its response on, and the \<open>then\<close> callback of \<open>updateCartCount\<close>.\<close>

definition getCart_resume :: "response \<Rightarrow> world \<Rightarrow> cart option \<times> world" where
  "getCart_resume resp w =
     (case resp of
        NetworkFailure m \<Rightarrow> (None, emit (ConsoleError ''Get cart error:'' (FetchFailed m)) w)
      | HttpNotOk st b \<Rightarrow> (None, emit (ConsoleError ''Get cart error:'' (HttpError st)) w)
      | HttpOk Unparseable \<Rightarrow> (None, emit (ConsoleError ''Get cart error:'' SyntaxError) w)
      | HttpOk (Parsed c) \<Rightarrow> (Some c, w))"

definition updateCartCount_resume :: "response \<Rightarrow> world \<Rightarrow> world" where
  "updateCartCount_resume resp w =
     (case getCart_resume resp w of
        (None, w1) \<Rightarrow> w1
      | (Some c, w1) \<Rightarrow>
          dispatch_cart_updated (Some c) (emit (SetCartCount (item_count c)) w1))"

text \<open>
  \<open>addToCart\<close>: the \<open>catch\<close> block, the part before the request, the part after it.
  The caller of the model passes the defaults of the parameters (\<open>quantity = 1\<close>,
  \<open>options = {}\<close>, \<open>forceRefresh = false\<close>) itself.
\<close>

definition addToCart_catch :: "error \<Rightarrow> world \<Rightarrow> result completion \<times> world" where
  "addToCart_catch err w =
     (Returned (Failure err),
      dispatchCartEvent ''cart:error'' (ErrorDetail err)
        (emit (ConsoleError ''Add to cart error:'' err) w))"

definition addToCart :: "jsval \<Rightarrow> jsnum \<Rightarrow> options \<Rightarrow> world \<Rightarrow> result progress \<times> world" where
  "addToCart variantId qty opts w =
     (if \<not> truthy variantId then
        (case addToCart_catch (Error ''Variant ID is required'') w of
           (c, w1) \<Rightarrow> (Settled c, w1))
      else if js_less qty 1 then
        (case addToCart_catch (Error ''Quantity must be at least 1'') w of
           (c, w1) \<Rightarrow> (Settled c, w1))
      else
        (Pending,
         fetch Cart_add_js POST
           (AddBody variantId qty
              (if truthy (selling_plan opts) then Some (selling_plan opts) else None)
              (case properties opts of
                 None \<Rightarrow> None
               | Some ps \<Rightarrow> if length ps > 0 then Some ps else None))
           (AddToCart qty) w))"

definition addToCart_try :: "jsnum \<Rightarrow> response \<Rightarrow> world \<Rightarrow> error + (cart \<times> world)" where
  "addToCart_try qty resp w =
     (case resp of
        NetworkFailure m \<Rightarrow> Inl (FetchFailed m)
      | HttpNotOk st Unparseable \<Rightarrow> Inl (HttpError st)
      | HttpNotOk st (Parsed ErrNull) \<Rightarrow> Inl TypeError
      | HttpNotOk st (Parsed (ErrDoc m)) \<Rightarrow>
          Inl (if truthy m then MessageOf m else HttpError st)
      | HttpOk Unparseable \<Rightarrow> Inl SyntaxError
      | HttpOk (Parsed d) \<Rightarrow>
          Inr (d, dispatchCartEvent ''cart:item-added'' (ItemAdded d qty)
                    (updateCartCount w)))"

definition addToCart_resume :: "jsnum \<Rightarrow> response \<Rightarrow> world \<Rightarrow> result completion \<times> world" where
  "addToCart_resume qty resp w =
     (case addToCart_try qty resp w of
        Inl err \<Rightarrow> addToCart_catch err w
      | Inr (d, w1) \<Rightarrow> (Returned (Success d), w1))"

text \<open>
  \<open>updateCartItem\<close>, \<open>removeFromCart\<close>, \<open>updateCartNote\<close> and \<open>getCartData\<close> have
  the same shape: the request, then a \<open>try\<close> body whose throw sites are the rejected
  \<open>fetch\<close>, the \<open>!response.ok\<close> test and \<open>response.json()\<close>, then a \<open>catch\<close> that
  logs and returns. \<open>json_or_throw\<close> is the common start of the \<open>try\<close> body.
\<close>

definition json_or_throw :: "response \<Rightarrow> error + cart" where
  "json_or_throw resp =
     (case resp of
        NetworkFailure m \<Rightarrow> Inl (FetchFailed m)
      | HttpNotOk st b \<Rightarrow> Inl (HttpError st)
      | HttpOk Unparseable \<Rightarrow> Inl SyntaxError
      | HttpOk (Parsed d) \<Rightarrow> Inr d)"

definition updateCartItem :: "int \<Rightarrow> jsnum \<Rightarrow> world \<Rightarrow> result progress \<times> world" where
  "updateCartItem ln qty w =
     (Pending, fetch Cart_change_js POST (ChangeBody ln qty) UpdateCartItem w)"

definition updateCartItem_resume :: "response \<Rightarrow> world \<Rightarrow> result completion \<times> world" where
  "updateCartItem_resume resp w =
     (case json_or_throw resp of
        Inl err \<Rightarrow> (Returned (Failure err), emit (ConsoleError ''Update cart item error:'' err) w)
      | Inr d \<Rightarrow> (Returned (Success d), w))"

definition removeFromCart :: "int \<Rightarrow> world \<Rightarrow> result progress \<times> world" where
  "removeFromCart ln w =
     (Pending, fetch Cart_change_js POST (ChangeBody ln (Finite 0)) RemoveFromCart w)"

definition removeFromCart_resume :: "response \<Rightarrow> world \<Rightarrow> result completion \<times> world" where
  "removeFromCart_resume resp w =
     (case json_or_throw resp of
        Inl err \<Rightarrow> (Returned (Failure err), emit (ConsoleError ''Remove from cart error:'' err) w)
      | Inr d \<Rightarrow> (Returned (Success d), w))"

definition updateCartNote :: "string \<Rightarrow> world \<Rightarrow> result progress \<times> world" where
  "updateCartNote note w =
     (Pending, fetch Cart_update_js POST (NoteBody note) (UpdateCartNote note) w)"

definition updateCartNote_resume :: "string \<Rightarrow> response \<Rightarrow> world \<Rightarrow> result completion \<times> world" where
  "updateCartNote_resume note resp w =
     (case json_or_throw resp of
        Inl err \<Rightarrow> (Returned (Failure err), emit (ConsoleError ''Update cart note error:'' err) w)
      | Inr d \<Rightarrow>
          (Returned (Success d),
           dispatchCartEvent ''cart:note-updated'' (NoteUpdated note) (clearCartCache w)))"

text \<open>
  \<open>getCartData\<close>: the cache is a pair of the data and the time it was stored; \<open>None\<close>
  is the \<open>null\<close> of \<open>init\<close> and \<open>clearCartCache\<close>.
\<close>

definition getCartData :: "bool \<Rightarrow> world \<Rightarrow> cart option progress \<times> world" where
  "getCartData forceRefresh w =
     (case cartCache w of
        None \<Rightarrow> (Pending, fetch Cart_js GET NoBody GetCartData w)
      | Some (d, timestamp) \<Rightarrow>
          if \<not> forceRefresh \<and> clock w - timestamp < 5000
          then (Settled (Returned (Some d)), w)
          else (Pending, fetch Cart_js GET NoBody GetCartData w))"

definition getCartData_resume :: "response \<Rightarrow> world \<Rightarrow> cart option completion \<times> world" where
  "getCartData_resume resp w =
     (case json_or_throw resp of
        Inl err \<Rightarrow> (Returned None, emit (ConsoleError ''Get cart data error:'' err) w)
      | Inr d \<Rightarrow> (Returned (Some d), w\<lparr>cartCache := Some (d, clock w)\<rparr>))"

section \<open>CartSystem\<close>

text \<open>
  The two methods that change the cart, with the helpers they use.
  \<open>updateCartUI\<close> (with the reload of the mini-cart section it may start) and
  \<open>updateFreeShippingBar\<close> write to the page and are one effect each.
  \<open>refreshCart\<close> and the shipping calculator neither change the cart nor read
  \<open>isUpdating\<close>; they are left out.
\<close>

definition showNotification :: "string \<Rightarrow> string \<Rightarrow> world \<Rightarrow> world" where
  "showNotification message type w = emit (ShowNotification message type) w"

definition dispatchCartUpdatedEvent :: "world \<Rightarrow> world" where
  "dispatchCartUpdatedEvent w = dispatch_cart_updated (cart w) w"

text \<open>The expression \<open>this.cart.items[line - 1]?.quantity || 1\<close>, for a cart that is not null.\<close>

definition revert_value :: "cart \<Rightarrow> int \<Rightarrow> int" where
  "revert_value c ln =
     (if 1 \<le> ln \<and> ln \<le> int (length (items c))
      then or_default (Finite (quantity (items c ! nat (ln - 1)))) 1
      else 1)"

text \<open>The statements under \<open>if (response.ok)\<close>, once \<open>response.json()\<close> has given the cart.\<close>

definition cart_replaced :: "cart \<Rightarrow> string \<Rightarrow> world \<Rightarrow> world" where
  "cart_replaced c message w =
     showNotification message ''success''
       (dispatchCartUpdatedEvent
          (emit (UpdateFreeShippingBar c) (emit (UpdateCartUI c) (w\<lparr>cart := Some c\<rparr>))))"

definition updateLineItem :: "input \<Rightarrow> world \<Rightarrow> world" where
  "updateLineItem inp w =
     (if isUpdating w then w
      else fetch Cart_change_js POST (ChangeBody (line inp) (input_value inp))
             (UpdateLineItem inp) (w\<lparr>isUpdating := True\<rparr>))"

definition updateLineItem_try :: "response \<Rightarrow> world \<Rightarrow> error + world" where
  "updateLineItem_try resp w =
     (case resp of
        NetworkFailure m \<Rightarrow> Inl (FetchFailed m)
      | HttpNotOk st b \<Rightarrow> Inl (Error ''Failed to update cart'')
      | HttpOk Unparseable \<Rightarrow> Inl SyntaxError
      | HttpOk (Parsed c) \<Rightarrow> Inr (cart_replaced c ''Carrinho atualizado'' w))"

definition updateLineItem_catch :: "input \<Rightarrow> error \<Rightarrow> world \<Rightarrow> unit completion \<times> world" where
  "updateLineItem_catch inp err w =
     (let w1 = showNotification ''Erro ao atualizar item'' ''error''
                 (emit (ConsoleError ''Error updating line item:'' err) w)
      in case cart w1 of
           None \<Rightarrow> (Threw TypeError, w1)
         | Some c \<Rightarrow> (Returned (), emit (SetInputValue (line inp) (revert_value c (line inp))) w1))"

definition updateLineItem_resume :: "input \<Rightarrow> response \<Rightarrow> world \<Rightarrow> unit completion \<times> world" where
  "updateLineItem_resume inp resp w =
     (case (case updateLineItem_try resp w of
              Inl err \<Rightarrow> updateLineItem_catch inp err w
            | Inr w1 \<Rightarrow> (Returned (), w1)) of
        (c, w2) \<Rightarrow> (c, w2\<lparr>isUpdating := False\<rparr>))"

definition removeLineItem :: "int \<Rightarrow> world \<Rightarrow> world" where
  "removeLineItem ln w =
     (if isUpdating w then w
      else fetch Cart_change_js POST (ChangeBody ln (Finite 0))
             (RemoveLineItem ln) (w\<lparr>isUpdating := True\<rparr>))"

definition removeLineItem_try :: "response \<Rightarrow> world \<Rightarrow> error + world" where
  "removeLineItem_try resp w =
     (case resp of
        NetworkFailure m \<Rightarrow> Inl (FetchFailed m)
      | HttpNotOk st b \<Rightarrow> Inl (Error ''Failed to remove item'')
      | HttpOk Unparseable \<Rightarrow> Inl SyntaxError
      | HttpOk (Parsed c) \<Rightarrow> Inr (cart_replaced c ''Item removido do carrinho'' w))"

definition removeLineItem_resume :: "response \<Rightarrow> world \<Rightarrow> unit completion \<times> world" where
  "removeLineItem_resume resp w =
     (case (case removeLineItem_try resp w of
              Inl err \<Rightarrow>
                (Returned (),
                 showNotification ''Erro ao remover item'' ''error''
                   (emit (ConsoleError ''Error removing line item:'' err) w))
            | Inr w1 \<Rightarrow> (Returned (), w1)) of
        (c, w2) \<Rightarrow> (c, w2\<lparr>isUpdating := False\<rparr>))"

section \<open>CartDrawer\<close>

definition showError :: "string \<Rightarrow> world \<Rightarrow> world" where
  "showError message w = emit (ShowError message) w"

definition loadCartData_resume :: "response \<Rightarrow> world \<Rightarrow> world" where
  "loadCartData_resume resp w =
     (case resp of
        NetworkFailure m \<Rightarrow> emit (ConsoleError ''Failed to load cart data:'' (FetchFailed m)) w
      | HttpNotOk st b \<Rightarrow> w
      | HttpOk Unparseable \<Rightarrow> emit (ConsoleError ''Failed to load cart data:'' SyntaxError) w
      | HttpOk (Parsed c) \<Rightarrow> w\<lparr>cartData := Some c\<rparr>)"

definition drawer_updateCartCount :: "world \<Rightarrow> world" where
  "drawer_updateCartCount w =
     (case cartData w of None \<Rightarrow> w | Some c \<Rightarrow> emit (SetCartCount (item_count c)) w)"

text \<open>
  \<open>render\<close>: the cart count, then the items, the summary and the shipping bar, which
  are one effect here.
\<close>

definition render :: "world \<Rightarrow> world" where
  "render w =
     (case cartData w of None \<Rightarrow> w | Some c \<Rightarrow> emit (Render c) (drawer_updateCartCount w))"

definition drawer_dispatchCartUpdatedEvent :: "world \<Rightarrow> world" where
  "drawer_dispatchCartUpdatedEvent w = dispatch_cart_updated (cartData w) w"

text \<open>\<open>updateCart\<close> up to the request of \<open>loadCartData\<close>, and from its response on.\<close>

definition updateCart :: "world \<Rightarrow> world" where
  "updateCart w =
     (if isLoading w then w
      else fetch Cart_js GET NoBody DrawerUpdateCart (w\<lparr>isLoading := True\<rparr>))"

definition updateCart_resume :: "response \<Rightarrow> world \<Rightarrow> world" where
  "updateCart_resume resp w =
     (drawer_dispatchCartUpdatedEvent
        (drawer_updateCartCount (render (loadCartData_resume resp w))))\<lparr>isLoading := False\<rparr>"

definition drawer_updateCartItem :: "int \<Rightarrow> int \<Rightarrow> world \<Rightarrow> world" where
  "drawer_updateCartItem ln qty w =
     fetch Cart_change_js POST (ChangeBody ln (Finite qty)) DrawerUpdateCartItem w"

definition drawer_updateCartItem_resume :: "response \<Rightarrow> world \<Rightarrow> world" where
  "drawer_updateCartItem_resume resp w =
     (case resp of
        NetworkFailure m \<Rightarrow>
          showError ''Failed to update item. Please try again.''
            (emit (ConsoleError ''Failed to update cart item:'' (FetchFailed m)) w)
      | HttpNotOk st b \<Rightarrow>
          showError ''Failed to update item. Please try again.''
            (emit (ConsoleError ''Failed to update cart item:''
                     (Error ''Failed to update cart item'')) w)
      | HttpOk b \<Rightarrow> updateCart w)"

definition handleQuantityIncrease :: "input \<Rightarrow> world \<Rightarrow> world" where
  "handleQuantityIncrease inp w =
     drawer_updateCartItem (line inp) (or_default (input_value inp) 0 + 1) w"

definition handleQuantityDecrease :: "input \<Rightarrow> world \<Rightarrow> world" where
  "handleQuantityDecrease inp w =
     drawer_updateCartItem (line inp) (max 0 (or_default (input_value inp) 0 - 1)) w"

text \<open>
  \<open>clearTimeout\<close> followed by \<open>setTimeout\<close>: the one timer field of the drawer holds
  the pending timer, whatever line or note the cleared one was for.
\<close>

definition handleQuantityChange :: "input \<Rightarrow> world \<Rightarrow> world" where
  "handleQuantityChange inp w =
     w\<lparr>debounceTimer :=
         Some \<lparr>deadline = clock w + 500,
               action = UpdateCartItemLater (line inp) (or_default (input_value inp) 0)\<rparr>\<rparr>"

definition handleNoteChange :: "string \<Rightarrow> world \<Rightarrow> world" where
  "handleNoteChange note w =
     w\<lparr>debounceTimer := Some \<lparr>deadline = clock w + 500, action = SaveNoteLater note\<rparr>\<rparr>"

definition handleRemoveItem :: "int \<Rightarrow> world \<Rightarrow> world" where
  "handleRemoveItem ln w = drawer_updateCartItem ln 0 w"

definition handleUpsellAdd :: "jsval \<Rightarrow> world \<Rightarrow> world" where
  "handleUpsellAdd productId w =
     fetch Cart_add_js POST (AddBody productId (Finite 1) None None) DrawerUpsellAdd w"

definition handleUpsellAdd_resume :: "response \<Rightarrow> world \<Rightarrow> world" where
  "handleUpsellAdd_resume resp w =
     (case resp of
        HttpOk b \<Rightarrow> updateCart w
      | NetworkFailure m \<Rightarrow> showError ''Failed to add product. Please try again.'' w
      | HttpNotOk st b \<Rightarrow> showError ''Failed to add product. Please try again.'' w)"

definition handleNoteChange_resume :: "response \<Rightarrow> world \<Rightarrow> world" where
  "handleNoteChange_resume resp w =
     (case resp of
        NetworkFailure m \<Rightarrow> emit (ConsoleError ''Failed to update cart note:'' (FetchFailed m)) w
      | HttpNotOk st b \<Rightarrow> w
      | HttpOk b \<Rightarrow> w)"

text \<open>The callback of the drawer's timer.\<close>

definition fire :: "timer_action \<Rightarrow> world \<Rightarrow> world" where
  "fire a w =
     (case a of
        UpdateCartItemLater ln qty \<Rightarrow> drawer_updateCartItem ln qty w
      | SaveNoteLater note \<Rightarrow> fetch Cart_update_js POST (NoteBody note) DrawerNote w)"

section \<open>The event loop\<close>

text \<open>
  Time passes to \<open>t\<close>; the pending timer runs once its delay has elapsed. A timer that
  ran leaves a dead handle in \<open>debounceTimer\<close>, for which \<open>clearTimeout\<close> does nothing:
  it is \<open>None\<close> here.
\<close>

definition advance :: "int \<Rightarrow> world \<Rightarrow> world" where
  "advance t w =
     (let w1 = w\<lparr>clock := max (clock w) t\<rparr>
      in case debounceTimer w1 of
           None \<Rightarrow> w1
         | Some tm \<Rightarrow>
             if deadline tm \<le> clock w1
             then fire (action tm) (w1\<lparr>debounceTimer := None\<rparr>)
             else w1)"

text \<open>The rest of the suspended function runs with the response.\<close>

definition resume :: "kont \<Rightarrow> response \<Rightarrow> world \<Rightarrow> world" where
  "resume k resp w =
     (case k of
        UpdateLineItem inp \<Rightarrow> snd (updateLineItem_resume inp resp w)
      | RemoveLineItem ln \<Rightarrow> snd (removeLineItem_resume resp w)
      | DrawerInit \<Rightarrow> render (loadCartData_resume resp w)
      | DrawerUpdateCartItem \<Rightarrow> drawer_updateCartItem_resume resp w
      | DrawerUpdateCart \<Rightarrow> updateCart_resume resp w
      | DrawerUpsellAdd \<Rightarrow> handleUpsellAdd_resume resp w
      | DrawerNote \<Rightarrow> handleNoteChange_resume resp w
      | AddToCart qty \<Rightarrow> snd (addToCart_resume qty resp w)
      | UpdateCartItem \<Rightarrow> snd (updateCartItem_resume resp w)
      | RemoveFromCart \<Rightarrow> snd (removeFromCart_resume resp w)
      | UpdateCartNote note \<Rightarrow> snd (updateCartNote_resume note resp w)
      | UpdateCartCount \<Rightarrow> updateCartCount_resume resp w
      | GetCartData \<Rightarrow> snd (getCartData_resume resp w))"

text \<open>
  What can happen next: a handler or a \<open>cartUtils\<close> function is called, time passes,
  or a request that is in flight gets its response (in any order).

  \<open>Change_quantity_input\<close> is the \<open>change\<close> event of a quantity input of the drawer.
  The input has the attributes \<open>data-cart-quantity-input\<close> and \<open>data-line\<close>, and the
  event bubbles: the listener of the drawer calls \<open>handleQuantityChange\<close>, then the
  listener that \<open>CartSystem\<close> has on the document for \<open>[data-line]\<close> calls
  \<open>updateLineItem\<close> with the same input. \<open>Call_updateLineItem\<close> is the change of a
  \<open>[data-line]\<close> input outside the drawer.
\<close>

datatype occurrence =
    Call_updateLineItem input
  | Call_removeLineItem int
  | Call_handleCartUpdate "cart option"
  | Call_handleQuantityIncrease input
  | Call_handleQuantityDecrease input
  | Call_handleQuantityChange input
  | Change_quantity_input input
  | Call_handleRemoveItem int
  | Call_handleNoteChange string
  | Call_handleUpsellAdd jsval
  | Call_addToCart jsval jsnum options
  | Call_updateCartItem int jsnum
  | Call_removeFromCart int
  | Call_updateCartNote string
  | Call_getCartData bool
  | Call_updateCartCount
  | Call_clearCartCache
  | Advance int
  | Respond request response

definition step :: "occurrence \<Rightarrow> world \<Rightarrow> world" where
  "step oc w =
     (case oc of
        Call_updateLineItem inp \<Rightarrow> updateLineItem inp w
      | Call_removeLineItem ln \<Rightarrow> removeLineItem ln w
      | Call_handleCartUpdate c \<Rightarrow> handleCartUpdate c w
      | Call_handleQuantityIncrease inp \<Rightarrow> handleQuantityIncrease inp w
      | Call_handleQuantityDecrease inp \<Rightarrow> handleQuantityDecrease inp w
      | Call_handleQuantityChange inp \<Rightarrow> handleQuantityChange inp w
      | Change_quantity_input inp \<Rightarrow> updateLineItem inp (handleQuantityChange inp w)
      | Call_handleRemoveItem ln \<Rightarrow> handleRemoveItem ln w
      | Call_handleNoteChange note \<Rightarrow> handleNoteChange note w
      | Call_handleUpsellAdd productId \<Rightarrow> handleUpsellAdd productId w
      | Call_addToCart variantId qty opts \<Rightarrow> snd (addToCart variantId qty opts w)
      | Call_updateCartItem ln qty \<Rightarrow> snd (updateCartItem ln qty w)
      | Call_removeFromCart ln \<Rightarrow> snd (removeFromCart ln w)
      | Call_updateCartNote note \<Rightarrow> snd (updateCartNote note w)
      | Call_getCartData forceRefresh \<Rightarrow> snd (getCartData forceRefresh w)
      | Call_updateCartCount \<Rightarrow> updateCartCount w
      | Call_clearCartCache \<Rightarrow> clearCartCache w
      | Advance t \<Rightarrow> advance t w
      | Respond r resp \<Rightarrow>
          if r \<in> set (inflight w)
          then resume (kont r) resp (w\<lparr>inflight := remove1 r (inflight w)\<rparr>)
          else w)"

fun exec :: "world \<Rightarrow> occurrence list \<Rightarrow> world" where
  "exec w [] = w"
| "exec w (oc # ocs) = exec (step oc w) ocs"

text \<open>
  The page after loading, at time \<open>t\<close>: the constructors have run, the drawer's \<open>init\<close>
  waits for its first \<open>loadCartData\<close> and \<open>cartUtils.init\<close> for its first
  \<open>updateCartCount\<close>.
\<close>

definition init_world :: "int \<Rightarrow> world" where
  "init_world t =
     updateCartCount
       (fetch Cart_js GET NoBody DrawerInit
          \<lparr>cart = None, isUpdating = False, isLoading = False, cartData = None,
           debounceTimer = None, cartCache = None, clock = t,
           inflight = [], issued = [], effects = []\<rparr>)"

text \<open>The requests that change the cart, and those of them that \<open>CartSystem\<close> issued.\<close>

definition is_mutation :: "request \<Rightarrow> bool" where
  "is_mutation r =
     (meth r = POST \<and>
      (url r = Cart_add_js \<or> url r = Cart_change_js \<or> url r = Cart_update_js))"

fun from_CartSystem :: "kont \<Rightarrow> bool" where
  "from_CartSystem (UpdateLineItem inp) = True"
| "from_CartSystem (RemoveLineItem ln) = True"
| "from_CartSystem k = False"

fun is_dispatch :: "effect \<Rightarrow> bool" where
  "is_dispatch (Dispatch eventName d) = True"
| "is_dispatch e = False"

text \<open>
  The requests in flight that \<open>CartSystem\<close> issued, and the invariant of its guard:
  there is one exactly while \<open>isUpdating\<close> is set.
\<close>

definition sys_requests :: "world \<Rightarrow> request list" where
  "sys_requests w = filter (\<lambda>r. from_CartSystem (kont r)) (inflight w)"

definition guarded :: "world \<Rightarrow> bool" where
  "guarded w =
     (length (sys_requests w) = (if isUpdating w then 1 else 0)
      \<and> list_all is_mutation (sys_requests w))"

text \<open>Carts, requests and a page for the concrete scenarios.\<close>

definition one_line_cart :: "int \<Rightarrow> cart" where
  "one_line_cart q =
     \<lparr>item_count = q, total_price = 1000 * q,
      items = [\<lparr>quantity = q, line_price = 1000 * q\<rparr>]\<rparr>"

definition two_line_cart :: "int \<Rightarrow> int \<Rightarrow> cart" where
  "two_line_cart q1 q2 =
     \<lparr>item_count = q1 + q2, total_price = 1000 * q1 + 500 * q2,
      items = [\<lparr>quantity = q1, line_price = 1000 * q1\<rparr>,
               \<lparr>quantity = q2, line_price = 500 * q2\<rparr>]\<rparr>"

definition no_options :: options where
  "no_options = \<lparr>selling_plan = Undefined, properties = None\<rparr>"

definition get_cart_request :: request where
  "get_cart_request = \<lparr>url = Cart_js, meth = GET, body = NoBody, kont = GetCartData\<rparr>"

definition change_request :: "int \<Rightarrow> jsnum \<Rightarrow> kont \<Rightarrow> request" where
  "change_request ln qty k =
     \<lparr>url = Cart_change_js, meth = POST, body = ChangeBody ln qty, kont = k\<rparr>"

text \<open>
  The loaded page once \<open>CartSystem\<close> has been handed a cart of two lines, each of
  quantity 1.
\<close>

definition page :: world where
  "page = step (Call_handleCartUpdate (Some (two_line_cart 1 1))) (init_world 0)"

section \<open>Unfolding the model\<close>

lemmas utils_defs = addToCart_def addToCart_catch_def addToCart_try_def addToCart_resume_def
  updateCartItem_def updateCartItem_resume_def removeFromCart_def removeFromCart_resume_def
  updateCartNote_def updateCartNote_resume_def getCartData_def getCartData_resume_def
  json_or_throw_def dispatchCartEvent_def clearCartCache_def updateCartCount_def
  dispatch_cart_updated_def handleCartUpdate_def fetch_def emit_def Let_def

lemmas system_defs = updateLineItem_def updateLineItem_try_def updateLineItem_catch_def
  updateLineItem_resume_def removeLineItem_def removeLineItem_try_def removeLineItem_resume_def
  cart_replaced_def dispatchCartUpdatedEvent_def showNotification_def
  revert_value_def

lemmas drawer_defs = showError_def loadCartData_resume_def render_def drawer_updateCartCount_def
  drawer_dispatchCartUpdatedEvent_def updateCart_def updateCart_resume_def
  drawer_updateCartItem_def drawer_updateCartItem_resume_def handleQuantityIncrease_def
  handleQuantityDecrease_def handleQuantityChange_def handleNoteChange_def handleRemoveItem_def
  handleUpsellAdd_def handleUpsellAdd_resume_def handleNoteChange_resume_def fire_def advance_def

lemmas page_defs = page_def init_world_def step_def two_line_cart_def change_request_def

section \<open>CartSystem: the guard, the response, the failure\<close>

lemma cart_updated_listeners_commute:
  "updateCartCount (handleCartUpdate c w) = handleCartUpdate c (updateCartCount w)"
  by (cases c) (simp_all add: updateCartCount_def handleCartUpdate_def fetch_def emit_def Let_def)

lemma filter_remove1_other: "\<not> P x \<Longrightarrow> filter P (remove1 x xs) = filter P xs"
  by (induction xs) auto

lemma Suc_length_filter_remove1:
  "x \<in> set xs \<Longrightarrow> P x \<Longrightarrow> Suc (length (filter P (remove1 x xs))) = length (filter P xs)"
  by (induction xs) auto

lemma list_all_filter_remove1:
  "list_all Q (filter P xs) \<Longrightarrow> list_all Q (filter P (remove1 x xs))"
  by (induction xs) auto

text \<open>What is not \<open>CartSystem\<close>'s leaves its flag and its requests alone.\<close>

lemma resume_other:
  assumes "\<not> from_CartSystem k"
  shows "isUpdating (resume k resp w) = isUpdating w
       \<and> sys_requests (resume k resp w) = sys_requests w"
  using assms
  by (cases k)
     (auto simp: resume_def sys_requests_def utils_defs drawer_defs getCart_resume_def
                 updateCartCount_resume_def
           split: response.splits parsed.splits errdoc.splits option.splits)

text \<open>
  The rest of \<open>updateLineItem\<close> and \<open>removeLineItem\<close> clears the flag and issues no
  request of \<open>CartSystem\<close>.
\<close>

lemma resume_sys:
  assumes "from_CartSystem k"
  shows "\<not> isUpdating (resume k resp w) \<and> sys_requests (resume k resp w) = sys_requests w"
  using assms
  by (cases k)
     (auto simp: resume_def sys_requests_def system_defs utils_defs
           split: response.splits parsed.splits option.splits)

lemma guarded_step: "guarded w \<Longrightarrow> guarded (step oc w)"
proof (cases oc)
  case (Respond r resp)
  assume g: "guarded w"
  show ?thesis
  proof (cases "r \<in> set (inflight w)")
    case False
    with g Respond show ?thesis by (simp add: step_def)
  next
    case True
    let ?w = "w\<lparr>inflight := remove1 r (inflight w)\<rparr>"
    have rest: "list_all is_mutation (sys_requests ?w)"
      using g by (simp add: guarded_def sys_requests_def list_all_filter_remove1)
    show ?thesis
    proof (cases "from_CartSystem (kont r)")
      case sys: True
      have "Suc (length (sys_requests ?w)) = length (sys_requests w)"
        using True sys by (simp add: sys_requests_def Suc_length_filter_remove1)
      moreover have "length (sys_requests w) \<le> 1"
        using g by (simp add: guarded_def split: if_splits)
      ultimately have "length (sys_requests ?w) = 0" by linarith
      then have "sys_requests ?w = []" by simp
      then have "sys_requests (resume (kont r) resp ?w) = []"
        using resume_sys [OF sys, of resp ?w] by simp
      with resume_sys [OF sys, of resp ?w] Respond True show ?thesis
        by (simp add: guarded_def step_def)
    next
      case other: False
      have "sys_requests ?w = sys_requests w"
        using other by (simp add: sys_requests_def filter_remove1_other)
      with resume_other [OF other, of resp ?w] g Respond True show ?thesis
        by (simp add: guarded_def step_def)
    qed
  qed
qed (auto simp: guarded_def step_def sys_requests_def is_mutation_def
                system_defs drawer_defs utils_defs
          split: option.splits if_splits timer_action.splits)

lemma guarded_exec: "guarded w \<Longrightarrow> guarded (exec w ocs)"
  by (induction ocs arbitrary: w) (auto intro: guarded_step)

lemma guarded_init: "guarded (init_world t)"
  by (simp add: guarded_def sys_requests_def init_world_def utils_defs)

text \<open>
  C1, as the code has it. In every state the page can reach, at most one request
  issued by \<open>CartSystem\<close> (\<open>updateLineItem\<close>, \<open>removeLineItem\<close>) is in flight: exactly
  one while \<open>isUpdating\<close> is set and none otherwise, and it is a mutation request. The
  guard is \<open>CartSystem\<close>'s own: the requests of \<open>CartDrawer\<close> and \<open>cartUtils\<close> are not
  counted, and nothing bounds them.
\<close>

theorem one_CartSystem_mutation_in_flight:
  "length (sys_requests (exec (init_world t) ocs))
     = (if isUpdating (exec (init_world t) ocs) then 1 else 0)
   \<and> list_all is_mutation (sys_requests (exec (init_world t) ocs))"
  using guarded_exec [OF guarded_init, of t ocs] by (simp add: guarded_def)

text \<open>
  C1 as stated fails: two clicks on the plus button of line 1 in the drawer, the
  second before the first request has its response, put two mutation requests in
  flight at once; an edit in \<open>CartSystem\<close> adds a third.
\<close>

theorem several_mutations_in_flight:
  "filter is_mutation
     (inflight (exec page
        [Call_handleQuantityIncrease \<lparr>line = 1, input_value = Finite 1\<rparr>,
         Call_handleQuantityIncrease \<lparr>line = 1, input_value = Finite 1\<rparr>,
         Call_updateLineItem \<lparr>line = 2, input_value = Finite 5\<rparr>]))
   = [change_request 1 (Finite 2) DrawerUpdateCartItem,
      change_request 1 (Finite 2) DrawerUpdateCartItem,
      change_request 2 (Finite 5) (UpdateLineItem \<lparr>line = 2, input_value = Finite 5\<rparr>)]"
  by (simp add: page_defs system_defs drawer_defs utils_defs is_mutation_def)

text \<open>
  C2, as the code has it. A mutation intent derives no predicted snapshot.
  \<open>updateLineItem\<close> and \<open>removeLineItem\<close> do nothing when \<open>isUpdating\<close> is set;
  otherwise they set it and issue their request. The drawer's \<open>updateCartItem\<close>
  issues its request. Nothing else changes: no effect reaches an observer and the
  cart held stays as it is while the request is in flight. When the response to
  \<open>updateLineItem\<close> is ok, \<open>CartSystem\<close> replaces its cart by the server's snapshot and
  hands that snapshot on: the page is updated, \<open>cart:updated\<close> is dispatched with it
  (the listener of \<open>CartSystem\<close> updates the page once more), then the toast is shown.
\<close>

theorem no_prediction_before_response:
  "updateLineItem inp w =
     (if isUpdating w then w
      else w\<lparr>isUpdating := True,
             inflight := inflight w
               @ [change_request (line inp) (input_value inp) (UpdateLineItem inp)],
             issued := issued w
               @ [change_request (line inp) (input_value inp) (UpdateLineItem inp)]\<rparr>)
   \<and> removeLineItem ln w =
     (if isUpdating w then w
      else w\<lparr>isUpdating := True,
             inflight := inflight w @ [change_request ln (Finite 0) (RemoveLineItem ln)],
             issued := issued w @ [change_request ln (Finite 0) (RemoveLineItem ln)]\<rparr>)
   \<and> drawer_updateCartItem ln qty w =
       w\<lparr>inflight := inflight w @ [change_request ln (Finite qty) DrawerUpdateCartItem],
         issued := issued w @ [change_request ln (Finite qty) DrawerUpdateCartItem]\<rparr>
   \<and> fst (updateLineItem_resume inp (HttpOk (Parsed c)) w) = Returned ()
   \<and> cart (snd (updateLineItem_resume inp (HttpOk (Parsed c)) w)) = Some c
   \<and> isUpdating (snd (updateLineItem_resume inp (HttpOk (Parsed c)) w)) = False
   \<and> effects (snd (updateLineItem_resume inp (HttpOk (Parsed c)) w)) =
       effects w @ [UpdateCartUI c, UpdateFreeShippingBar c,
                    Dispatch ''cart:updated'' (CartUpdated (Some c)),
                    UpdateCartUI c, UpdateFreeShippingBar c,
                    ShowNotification ''Carrinho atualizado'' ''success'']"
  by (simp add: system_defs drawer_defs utils_defs change_request_def)

text \<open>
  C2 as stated fails: on the page whose first line has quantity 1, the edit of that
  line to 5 puts the request in flight and nothing else; no effect is added and the
  cart still has quantity 1.
\<close>

theorem updateLineItem_shows_no_prediction:
  "effects (updateLineItem \<lparr>line = 1, input_value = Finite 5\<rparr> page) = effects page
   \<and> cart (updateLineItem \<lparr>line = 1, input_value = Finite 5\<rparr> page) = Some (two_line_cart 1 1)
   \<and> inflight (updateLineItem \<lparr>line = 1, input_value = Finite 5\<rparr> page)
       = inflight page
           @ [change_request 1 (Finite 5) (UpdateLineItem \<lparr>line = 1, input_value = Finite 5\<rparr>)]"
  by (simp add: page_defs system_defs drawer_defs utils_defs)

text \<open>
  C3, as the code has it. A mutation raised in \<open>CartSystem\<close> while \<open>isUpdating\<close> is set
  is dropped, not queued: the call changes nothing at all, and when the call in
  flight settles, whatever the response, no mutation request is issued. So the
  dropped edit is not sent.
\<close>

theorem mutation_while_updating_is_dropped:
  assumes "isUpdating w"
  shows "updateLineItem inp w = w \<and> removeLineItem ln w = w
       \<and> filter is_mutation (issued (snd (updateLineItem_resume inp' resp w)))
           = filter is_mutation (issued w)
       \<and> filter is_mutation (issued (snd (removeLineItem_resume resp w)))
           = filter is_mutation (issued w)"
  using assms
  by (auto simp: system_defs utils_defs is_mutation_def
           split: response.splits parsed.splits option.splits)

theorem mutation_while_updating_is_dropped_witness:
  "isUpdating (updateLineItem \<lparr>line = 1, input_value = Finite 5\<rparr> page)
   \<and> updateLineItem \<lparr>line = 2, input_value = Finite 3\<rparr>
        (updateLineItem \<lparr>line = 1, input_value = Finite 5\<rparr> page)
      = updateLineItem \<lparr>line = 1, input_value = Finite 5\<rparr> page"
  using mutation_while_updating_is_dropped
    [of "updateLineItem \<lparr>line = 1, input_value = Finite 5\<rparr> page"
        "\<lparr>line = 2, input_value = Finite 3\<rparr>"]
  by (simp add: page_defs system_defs utils_defs)

text \<open>
  C3 as stated fails: line 1 is edited to 5, line 2 is edited to 3 while the first
  request is in flight, the first request succeeds. The only mutation request ever
  issued is the first one, no mutation request is left in flight, and the cart that
  \<open>CartSystem\<close> ends with has line 2 at its old quantity.
\<close>

theorem second_edit_never_issued:
  "filter is_mutation (issued (exec page
     [Call_updateLineItem \<lparr>line = 1, input_value = Finite 5\<rparr>,
      Call_updateLineItem \<lparr>line = 2, input_value = Finite 3\<rparr>,
      Respond (change_request 1 (Finite 5) (UpdateLineItem \<lparr>line = 1, input_value = Finite 5\<rparr>))
              (HttpOk (Parsed (two_line_cart 5 1)))]))
   = [change_request 1 (Finite 5) (UpdateLineItem \<lparr>line = 1, input_value = Finite 5\<rparr>)]
   \<and> filter is_mutation (inflight (exec page
     [Call_updateLineItem \<lparr>line = 1, input_value = Finite 5\<rparr>,
      Call_updateLineItem \<lparr>line = 2, input_value = Finite 3\<rparr>,
      Respond (change_request 1 (Finite 5) (UpdateLineItem \<lparr>line = 1, input_value = Finite 5\<rparr>))
              (HttpOk (Parsed (two_line_cart 5 1)))]))
   = []
   \<and> cart (exec page
     [Call_updateLineItem \<lparr>line = 1, input_value = Finite 5\<rparr>,
      Call_updateLineItem \<lparr>line = 2, input_value = Finite 3\<rparr>,
      Respond (change_request 1 (Finite 5) (UpdateLineItem \<lparr>line = 1, input_value = Finite 5\<rparr>))
              (HttpOk (Parsed (two_line_cart 5 1)))])
   = Some (two_line_cart 5 1)"
  by (simp add: page_defs system_defs utils_defs resume_def is_mutation_def)

text \<open>
  C6, as the code has it. \<open>cartUtils.updateCartItem\<close> issues one request for each
  call, so two calls in a row with the same line and quantity make two network calls.
  \<open>CartSystem.updateLineItem\<close> called twice in a row makes one network call when no
  mutation of its own was in flight (the guard drops the second call) and none when
  one was.
\<close>

theorem calls_per_change:
  "issued (snd (updateCartItem ln qty (snd (updateCartItem ln qty w))))
     = issued w @ [change_request ln qty UpdateCartItem, change_request ln qty UpdateCartItem]
   \<and> issued (updateLineItem inp (updateLineItem inp w))
     = issued w @ (if isUpdating w then []
                   else [change_request (line inp) (input_value inp) (UpdateLineItem inp)])"
  by (simp add: system_defs utils_defs change_request_def)

text \<open>
  C6 as stated fails: \<open>cartUtils.updateCartItem(1, 5)\<close> twice in a row on the loaded
  page issues two requests.
\<close>

theorem updateCartItem_twice_two_calls:
  "issued (exec (init_world 0) [Call_updateCartItem 1 (Finite 5), Call_updateCartItem 1 (Finite 5)])
   = issued (init_world 0)
       @ [change_request 1 (Finite 5) UpdateCartItem, change_request 1 (Finite 5) UpdateCartItem]"
  by (simp add: page_defs utils_defs)

text \<open>
  C7, as the code has it. When the quantity change of \<open>CartSystem\<close> fails (the request
  is rejected, the status is not ok, or the body does not parse) while it holds a
  cart in which the line exists with a quantity that is not zero, the input is set
  back to that quantity, the toast \<open>Erro ao atualizar item\<close> is shown, the cause goes
  to the console, and \<open>isUpdating\<close> is cleared. These are all the effects: no event
  is dispatched.
\<close>

theorem failed_update_reverts_input:
  assumes "cart w = Some c" and "updateLineItem_try resp w = Inl err"
    and "1 \<le> line inp" and "line inp \<le> int (length (items c))"
    and "quantity (items c ! nat (line inp - 1)) \<noteq> 0"
  shows "updateLineItem_resume inp resp w =
           (Returned (),
            w\<lparr>isUpdating := False,
              effects := effects w @
                [ConsoleError ''Error updating line item:'' err,
                 ShowNotification ''Erro ao atualizar item'' ''error'',
                 SetInputValue (line inp) (quantity (items c ! nat (line inp - 1)))]\<rparr>)"
  using assms
  by (simp add: system_defs utils_defs)

theorem failed_update_reverts_input_witness:
  "cart (updateLineItem \<lparr>line = 1, input_value = Finite 5\<rparr> page) = Some (two_line_cart 1 1)
   \<and> updateLineItem_try (NetworkFailure ''Failed to fetch'')
        (updateLineItem \<lparr>line = 1, input_value = Finite 5\<rparr> page)
      = Inl (FetchFailed ''Failed to fetch'')
   \<and> quantity (items (two_line_cart 1 1) ! nat (line \<lparr>line = 1, input_value = Finite 5\<rparr> - 1)) = 1
   \<and> effects (snd (updateLineItem_resume \<lparr>line = 1, input_value = Finite 5\<rparr>
                     (NetworkFailure ''Failed to fetch'')
                     (updateLineItem \<lparr>line = 1, input_value = Finite 5\<rparr> page)))
      = effects page @
          [ConsoleError ''Error updating line item:'' (FetchFailed ''Failed to fetch''),
           ShowNotification ''Erro ao atualizar item'' ''error'',
           SetInputValue 1 1]"
  using failed_update_reverts_input
    [of "updateLineItem \<lparr>line = 1, input_value = Finite 5\<rparr> page" "two_line_cart 1 1"
        "NetworkFailure ''Failed to fetch''" "FetchFailed ''Failed to fetch''"
        "\<lparr>line = 1, input_value = Finite 5\<rparr>"]
  by (simp add: page_defs system_defs utils_defs)

text \<open>
  C7 as stated fails: the change of line 1 from 1 to 5 meets a transport failure.
  When the function has settled no event has been dispatched; the cause is in the
  console line only, and the toast has the same text as for any other failure.
\<close>

theorem failed_update_fires_no_event:
  "filter is_dispatch
     (effects (snd (updateLineItem_resume \<lparr>line = 1, input_value = Finite 5\<rparr>
                      (NetworkFailure ''Failed to fetch'')
                      (updateLineItem \<lparr>line = 1, input_value = Finite 5\<rparr> page)))) = []
   \<and> drop (length (effects page))
       (effects (snd (updateLineItem_resume \<lparr>line = 1, input_value = Finite 5\<rparr>
                        (NetworkFailure ''Failed to fetch'')
                        (updateLineItem \<lparr>line = 1, input_value = Finite 5\<rparr> page))))
     = [ConsoleError ''Error updating line item:'' (FetchFailed ''Failed to fetch''),
        ShowNotification ''Erro ao atualizar item'' ''error'',
        SetInputValue 1 1]"
  by (simp add: page_defs system_defs utils_defs)

section \<open>CartDrawer: the debounce timer\<close>

lemma advance_pending:
  assumes "debounceTimer w = Some tm" and "max (clock w) t < deadline tm"
  shows "advance t w = w\<lparr>clock := max (clock w) t\<rparr>"
proof -
  have "\<not> deadline tm \<le> max (clock w) t" using assms(2) by linarith
  with assms(1) show ?thesis by (simp add: advance_def Let_def)
qed

lemma advance_due:
  assumes "debounceTimer w = Some tm" and "deadline tm \<le> max (clock w) t"
  shows "advance t w = fire (action tm) (w\<lparr>clock := max (clock w) t, debounceTimer := None\<rparr>)"
  using assms by (simp add: advance_def Let_def)

text \<open>
  C5, as the code has it. Three \<open>change\<close> events on the quantity input of one line of
  the drawer, each less than 500 ms after the one before, with no other call,
  input or response in between: the debounce of \<open>CartDrawer\<close> issues exactly one
  request to the change endpoint, once 500 ms have passed since the last event, and
  it carries the last quantity (7 for 5, 6, 7). \<open>CartSystem\<close> handles the same events
  without a debounce: when none of its mutations is in flight it sends the first
  edit at once, and its guard drops the two that follow. These are all the requests
  issued: two calls of the change endpoint when \<open>CartSystem\<close> was idle, one when it
  was busy.
\<close>

theorem debounced_edits_one_call:
  assumes "line i2 = line i1" and "line i3 = line i1"
    and "t2 < clock w + 500" and "t3 < max (clock w) t2 + 500"
    and "max (max (clock w) t2) t3 + 500 \<le> t4"
  shows "issued (exec w [Change_quantity_input i1, Advance t2,
                         Change_quantity_input i2, Advance t3,
                         Change_quantity_input i3, Advance t4])
         = issued w
           @ (if isUpdating w then []
              else [change_request (line i1) (input_value i1) (UpdateLineItem i1)])
           @ [change_request (line i1) (Finite (or_default (input_value i3) 0))
                DrawerUpdateCartItem]"
proof -
  define w1 where "w1 = updateLineItem i1 (handleQuantityChange i1 w)"
  define w2 where "w2 = advance t2 w1"
  define w3 where "w3 = updateLineItem i2 (handleQuantityChange i2 w2)"
  define w4 where "w4 = advance t3 w3"
  define w5 where "w5 = updateLineItem i3 (handleQuantityChange i3 w4)"
  define w6 where "w6 = advance t4 w5"
  define sent where "sent = issued w
     @ (if isUpdating w then []
        else [change_request (line i1) (input_value i1) (UpdateLineItem i1)])"
  have run: "exec w [Change_quantity_input i1, Advance t2,
                     Change_quantity_input i2, Advance t3,
                     Change_quantity_input i3, Advance t4] = w6"
    by (simp add: step_def w1_def w2_def w3_def w4_def w5_def w6_def)
  have 1: "debounceTimer w1 =
             Some \<lparr>deadline = clock w + 500,
                   action = UpdateCartItemLater (line i1) (or_default (input_value i1) 0)\<rparr>"
    and c1: "clock w1 = clock w" and s1: "issued w1 = sent" and u1: "isUpdating w1"
    by (simp_all add: w1_def sent_def handleQuantityChange_def updateLineItem_def fetch_def
                      Let_def change_request_def)
  have 2: "w2 = w1\<lparr>clock := max (clock w) t2\<rparr>"
    unfolding w2_def using assms(3) advance_pending [OF 1, of t2] by (simp add: c1)
  have u2: "isUpdating (handleQuantityChange i2 w2)"
    by (simp add: 2 u1 handleQuantityChange_def)
  have 3: "debounceTimer w3 =
             Some \<lparr>deadline = max (clock w) t2 + 500,
                   action = UpdateCartItemLater (line i2) (or_default (input_value i2) 0)\<rparr>"
    and c3: "clock w3 = max (clock w) t2" and s3: "issued w3 = sent" and u3: "isUpdating w3"
    using u2 by (simp_all add: w3_def updateLineItem_def 2 s1 u1 handleQuantityChange_def)
  have 4: "w4 = w3\<lparr>clock := max (max (clock w) t2) t3\<rparr>"
    unfolding w4_def using assms(4) advance_pending [OF 3, of t3] by (simp add: c3)
  have u4: "isUpdating (handleQuantityChange i3 w4)"
    by (simp add: 4 u3 handleQuantityChange_def)
  have 5: "debounceTimer w5 =
             Some \<lparr>deadline = max (max (clock w) t2) t3 + 500,
                   action = UpdateCartItemLater (line i3) (or_default (input_value i3) 0)\<rparr>"
    and c5: "clock w5 = max (max (clock w) t2) t3" and s5: "issued w5 = sent"
    using u4 by (simp_all add: w5_def updateLineItem_def 4 s3 u3 handleQuantityChange_def)
  have "w6 = fire (UpdateCartItemLater (line i3) (or_default (input_value i3) 0))
               (w5\<lparr>clock := max (clock w5) t4, debounceTimer := None\<rparr>)"
    unfolding w6_def using assms(5) advance_due [OF 5, of t4] by (simp add: c5)
  then have "issued w6 = sent @ [change_request (line i3)
                (Finite (or_default (input_value i3) 0)) DrawerUpdateCartItem]"
    by (simp add: fire_def drawer_updateCartItem_def fetch_def Let_def change_request_def s5)
  with run assms(2) show ?thesis by (simp add: sent_def)
qed

text \<open>The witness: \<open>CartSystem\<close> is busy with an edit of line 2 when line 1 is edited.\<close>

theorem debounced_edits_one_call_witness:
  "line \<lparr>line = 1, input_value = Finite 6\<rparr> = line \<lparr>line = 1, input_value = Finite 5\<rparr>
   \<and> line \<lparr>line = 1, input_value = Finite 7\<rparr> = line \<lparr>line = 1, input_value = Finite 5\<rparr>
   \<and> (100::int) < clock (updateLineItem \<lparr>line = 2, input_value = Finite 3\<rparr> page) + 500
   \<and> (200::int) < max (clock (updateLineItem \<lparr>line = 2, input_value = Finite 3\<rparr> page)) 100 + 500
   \<and> max (max (clock (updateLineItem \<lparr>line = 2, input_value = Finite 3\<rparr> page)) 100) 200 + 500
        \<le> (700::int)
   \<and> issued (exec (updateLineItem \<lparr>line = 2, input_value = Finite 3\<rparr> page)
        [Change_quantity_input \<lparr>line = 1, input_value = Finite 5\<rparr>, Advance 100,
         Change_quantity_input \<lparr>line = 1, input_value = Finite 6\<rparr>, Advance 200,
         Change_quantity_input \<lparr>line = 1, input_value = Finite 7\<rparr>, Advance 700])
      = issued page
          @ [change_request 2 (Finite 3) (UpdateLineItem \<lparr>line = 2, input_value = Finite 3\<rparr>),
             change_request 1 (Finite 7) DrawerUpdateCartItem]"
  using debounced_edits_one_call
    [of "\<lparr>line = 1, input_value = Finite 6\<rparr>" "\<lparr>line = 1, input_value = Finite 5\<rparr>"
        "\<lparr>line = 1, input_value = Finite 7\<rparr>" 100
        "updateLineItem \<lparr>line = 2, input_value = Finite 3\<rparr> page" 200 700]
  by (simp add: page_defs system_defs utils_defs)

text \<open>
  C5 as stated fails: on the page, the quantity input of line 1 in the drawer is
  changed to 5, to 6 after 100 ms and to 7 after 200 ms. Two requests go to the change
  endpoint, not one: \<open>CartSystem\<close> sends quantity 5 at the first event, and the timer
  of the drawer sends quantity 7.
\<close>

theorem three_edits_two_calls:
  "filter (\<lambda>r. url r = Cart_change_js)
     (issued (exec page
        [Change_quantity_input \<lparr>line = 1, input_value = Finite 5\<rparr>, Advance 100,
         Change_quantity_input \<lparr>line = 1, input_value = Finite 6\<rparr>, Advance 200,
         Change_quantity_input \<lparr>line = 1, input_value = Finite 7\<rparr>, Advance 700]))
   = [change_request 1 (Finite 5) (UpdateLineItem \<lparr>line = 1, input_value = Finite 5\<rparr>),
      change_request 1 (Finite 7) DrawerUpdateCartItem]"
  by (simp add: page_defs system_defs drawer_defs utils_defs)

section \<open>cartUtils: validation, results, cache\<close>

text \<open>
  C9. When \<open>addToCart\<close> is called with a falsy \<open>variantId\<close> or with a quantity less
  than 1, it settles at once with \<open>{success: false, error}\<close>; the world after the call
  is the world before it with two more effects, the console line and the
  \<open>cart:error\<close> event carrying the message. So no request is issued or in flight, and
  the cart, the cache and every other field are unchanged.
\<close>

theorem addToCart_invalid_input:
  assumes "\<not> truthy variantId \<or> js_less qty 1"
  shows "addToCart variantId qty opts w =
           (let err = Error (if truthy variantId then ''Quantity must be at least 1''
                             else ''Variant ID is required'')
            in (Settled (Returned (Failure err)),
                w\<lparr>effects := effects w @ [ConsoleError ''Add to cart error:'' err,
                                            Dispatch ''cart:error'' (ErrorDetail err)]\<rparr>))"
  using assms
  by (auto simp: addToCart_def addToCart_catch_def dispatchCartEvent_def emit_def Let_def)

theorem addToCart_invalid_input_witness:
  "js_less (Finite 0) 1
   \<and> addToCart (Str ''v1'') (Finite 0) no_options (init_world 0)
       = (Settled (Returned (Failure (Error ''Quantity must be at least 1''))),
          (init_world 0)
            \<lparr>effects := [ConsoleError ''Add to cart error:'' (Error ''Quantity must be at least 1''),
                          Dispatch ''cart:error''
                            (ErrorDetail (Error ''Quantity must be at least 1''))]\<rparr>)"
  using addToCart_invalid_input [of "Str ''v1''" "Finite 0" no_options "init_world 0"]
  by (simp add: init_world_def updateCartCount_def fetch_def Let_def)

text \<open>
  C8, as the code has it. For every input and every response, \<open>addToCart\<close>,
  \<open>updateCartItem\<close>, \<open>removeFromCart\<close> and \<open>updateCartNote\<close> settle with a result
  object and never throw: \<open>{success: true, data}\<close> only when the response was ok and
  its body parsed, \<open>{success: false, error}\<close> otherwise. A failure of \<open>addToCart\<close> is
  also dispatched as \<open>cart:error\<close> with the message; a failure of the other three is
  written to the console and returned, and nothing else changes: no event is
  dispatched.
\<close>

theorem cart_operations_return_results:
  "(case fst (addToCart variantId qty opts w) of
      Pending \<Rightarrow> True
    | Settled (Returned (Success d)) \<Rightarrow> False
    | Settled (Returned (Failure err)) \<Rightarrow>
        effects (snd (addToCart variantId qty opts w)) =
          effects w @ [ConsoleError ''Add to cart error:'' err,
                       Dispatch ''cart:error'' (ErrorDetail err)]
    | Settled (Threw e) \<Rightarrow> False)
   \<and> (case fst (addToCart_resume qty resp w) of
      Returned (Success d) \<Rightarrow> resp = HttpOk (Parsed d)
    | Returned (Failure err) \<Rightarrow>
        effects (snd (addToCart_resume qty resp w)) =
          effects w @ [ConsoleError ''Add to cart error:'' err,
                       Dispatch ''cart:error'' (ErrorDetail err)]
    | Threw e \<Rightarrow> False)
   \<and> (case fst (updateCartItem_resume resp w) of
      Returned (Success d) \<Rightarrow> resp = HttpOk (Parsed d)
    | Returned (Failure err) \<Rightarrow>
        snd (updateCartItem_resume resp w) =
          w\<lparr>effects := effects w @ [ConsoleError ''Update cart item error:'' err]\<rparr>
    | Threw e \<Rightarrow> False)
   \<and> (case fst (removeFromCart_resume resp w) of
      Returned (Success d) \<Rightarrow> resp = HttpOk (Parsed d)
    | Returned (Failure err) \<Rightarrow>
        snd (removeFromCart_resume resp w) =
          w\<lparr>effects := effects w @ [ConsoleError ''Remove from cart error:'' err]\<rparr>
    | Threw e \<Rightarrow> False)
   \<and> (case fst (updateCartNote_resume note resp w) of
      Returned (Success d) \<Rightarrow> resp = HttpOk (Parsed d)
    | Returned (Failure err) \<Rightarrow>
        snd (updateCartNote_resume note resp w) =
          w\<lparr>effects := effects w @ [ConsoleError ''Update cart note error:'' err]\<rparr>
    | Threw e \<Rightarrow> False)"
  by (auto simp: utils_defs split: response.splits parsed.splits errdoc.splits)

text \<open>
  C8 as stated fails: when the request of \<open>updateCartItem\<close> meets a transport failure,
  the function returns \<open>{success: false, error}\<close> and no event at all is dispatched.
\<close>

theorem updateCartItem_failure_not_broadcast:
  "fst (updateCartItem_resume (NetworkFailure ''Failed to fetch'') (init_world 0))
     = Returned (Failure (FetchFailed ''Failed to fetch''))
   \<and> filter is_dispatch
       (effects (snd (updateCartItem_resume (NetworkFailure ''Failed to fetch'') (init_world 0))))
     = []"
  by (simp add: utils_defs init_world_def)

text \<open>
  C4. While the cache is fresh (stored less than 5000 ms ago), \<open>getCartData()\<close>
  returns the cached data and leaves the world as it is: no request. And when a first
  call went to the network and its response, ok and parsed, arrived at time \<open>t1\<close>, a
  second call at a time \<open>t2\<close> less than 5000 ms later returns that data and issues
  nothing: of the two calls, only the first one's request has been issued.
\<close>

theorem getCartData_within_ttl:
  assumes "cartCache w = Some (d, timestamp)" and "clock w - timestamp < 5000"
    and "fst (getCartData False w0) = Pending" and "t2 - t1 < 5000"
  shows "getCartData False w = (Settled (Returned (Some d)), w)
       \<and> (let w1 = (step (Call_getCartData False) w0)\<lparr>clock := t1\<rparr>;
               w2 = (step (Respond get_cart_request (HttpOk (Parsed c))) w1)\<lparr>clock := t2\<rparr>
           in getCartData False w2 = (Settled (Returned (Some c)), w2)
              \<and> issued w2 = issued w0 @ [get_cart_request])"
  using assms
  by (auto simp: step_def resume_def get_cart_request_def utils_defs
           split: option.splits if_splits)

theorem getCartData_within_ttl_witness:
  "cartCache ((init_world 0)\<lparr>cartCache := Some (one_line_cart 1, 0), clock := 4999\<rparr>)
     = Some (one_line_cart 1, 0)
   \<and> clock ((init_world 0)\<lparr>cartCache := Some (one_line_cart 1, 0), clock := 4999\<rparr>) - 0 < 5000
   \<and> fst (getCartData False (init_world 0)) = Pending
   \<and> (5999::int) - 1000 < 5000
   \<and> getCartData False ((init_world 0)\<lparr>cartCache := Some (one_line_cart 1, 0), clock := 4999\<rparr>)
       = (Settled (Returned (Some (one_line_cart 1))),
          (init_world 0)\<lparr>cartCache := Some (one_line_cart 1, 0), clock := 4999\<rparr>)
   \<and> issued
        ((step (Respond get_cart_request (HttpOk (Parsed (one_line_cart 2))))
            ((step (Call_getCartData False) (init_world 0))\<lparr>clock := 1000\<rparr>))\<lparr>clock := 5999\<rparr>)
       = issued (init_world 0) @ [get_cart_request]"
  using getCartData_within_ttl
    [of "(init_world 0)\<lparr>cartCache := Some (one_line_cart 1, 0), clock := 4999\<rparr>"
        "one_line_cart 1" 0 "init_world 0" 5999 1000 "one_line_cart 2"]
  by (simp add: init_world_def utils_defs)

text \<open>
  C10. A successful \<open>updateCartNote\<close> leaves the cache empty, so the next
  \<open>getCartData()\<close> goes to the network. \<open>updateCartItem\<close> and \<open>removeFromCart\<close> leave
  the cache field as it was, whatever the response; so when the cache holds a snapshot
  stored less than 5000 ms before the time \<open>t\<close> of a \<open>getCartData()\<close> that follows a
  successful line mutation, that call returns the snapshot from before the mutation.
\<close>

theorem cache_after_mutations:
  assumes "cartCache w = Some (old, timestamp)" and "t - timestamp < 5000"
  shows "cartCache (snd (updateCartNote_resume note (HttpOk (Parsed new)) w)) = None
       \<and> getCartData False (snd (updateCartNote_resume note (HttpOk (Parsed new)) w)) =
           (Pending, fetch Cart_js GET NoBody GetCartData
                       (snd (updateCartNote_resume note (HttpOk (Parsed new)) w)))
       \<and> cartCache (snd (updateCartItem_resume resp (snd (updateCartItem ln qty w)))) = cartCache w
       \<and> cartCache (snd (removeFromCart_resume resp (snd (removeFromCart ln w)))) = cartCache w
       \<and> fst (getCartData False
           ((snd (updateCartItem_resume (HttpOk (Parsed new))
                    (snd (updateCartItem ln qty w))))\<lparr>clock := t\<rparr>))
         = Settled (Returned (Some old))
       \<and> fst (getCartData False
           ((snd (removeFromCart_resume (HttpOk (Parsed new))
                    (snd (removeFromCart ln w))))\<lparr>clock := t\<rparr>))
         = Settled (Returned (Some old))"
  using assms by (auto simp: utils_defs split: response.splits parsed.splits)

theorem cache_after_mutations_witness:
  "cartCache ((init_world 0)\<lparr>cartCache := Some (one_line_cart 1, 0)\<rparr>) = Some (one_line_cart 1, 0)
   \<and> (3000::int) - 0 < 5000
   \<and> fst (getCartData False
        ((snd (updateCartItem_resume (HttpOk (Parsed (one_line_cart 5)))
                 (snd (updateCartItem 1 (Finite 5)
                         ((init_world 0)\<lparr>cartCache := Some (one_line_cart 1, 0)\<rparr>)))))
           \<lparr>clock := 3000\<rparr>))
      = Settled (Returned (Some (one_line_cart 1)))
   \<and> one_line_cart 1 \<noteq> one_line_cart 5"
  using cache_after_mutations
    [of "(init_world 0)\<lparr>cartCache := Some (one_line_cart 1, 0)\<rparr>" "one_line_cart 1" 0 3000
        "[]" "one_line_cart 5" "HttpOk (Parsed (one_line_cart 5))" 1 "Finite 5"]
  by (simp add: init_world_def utils_defs one_line_cart_def)

end
